theory Spec2Isabelle
  imports Complex_Main "HOL-Library.AList"
begin

section \<open>The gateway of LoRaEnergySim (Gateway.py)\<close>

text \<open>
  Numbers. Python floats (SNR, RSS, transmit power, airtime, simulated time) are modelled
  as exact reals, so rounding error of IEEE arithmetic is outside this development; the
  data-rate index and the spreading factor are Python ints. \<open>np.round\<close> on a float
  returns an integral float, modelled by its integer value.

  Errors. Every place where the Python raises is a branch returning \<open>Inl\<close>. A call
  that raises is modelled by its exception alone: the partial mutations made before
  the raise are not kept.

  State. Every method of the class takes the gateway and returns the gateway it leaves
  behind, also the methods that assign to no attribute.
\<close>

subsection \<open>Data\<close>

datatype error = KeyError | UnboundLocalError | ZeroDivisionError | ValueError

type_synonym location = "real \<times> real"

text \<open>The attributes of \<open>LoRaParameters\<close> that Gateway.py reads.\<close>

record LoRaParameters =
  freq :: int
  sf :: int
  dr :: int
  tp :: real

record node =
  node_id :: nat
  node_location :: location
  node_lora_param :: LoRaParameters

record packet =
  packet_lora_param :: LoRaParameters

text \<open>
  What Gateway.py imports and this repository part does not hold: the class constants of
  \<open>LoRaParameters\<close>, \<open>Location.distance\<close> and \<open>LoRaPacket.time_on_air\<close>. They are
  parameters of the model. \<open>time_on_air\<close> takes the payload size, the frequency and
  the spreading factor; the other arguments of the \<open>LoRaParameters\<close> built in
  \<open>check_duty_cycle\<close> are the constants 125, 5, 1, 0, 1.
\<close>

record params =
  CHANNELS :: "int list"
  DEFAULT_CHANNELS :: "int list"
  CHANNEL_DUTY_CYCLE_PROC :: "int \<rightharpoonup> real"
  RX_2_DEFAULT_SF :: int
  RX_2_DEFAULT_FREQ :: int
  ADR_MARGIN_DB :: real
  distance :: "location \<Rightarrow> location \<Rightarrow> real"
  time_on_air :: "int \<Rightarrow> int \<Rightarrow> int \<Rightarrow> real"

text \<open>
  The gateway object. \<open>channel_time_used\<close> is a dict that \<open>log\<close> iterates, so it is
  an association list in insertion order; \<open>packet_history\<close> is only looked up.
  \<open>prop_model\<close> stands for \<open>prop_model.tp_to_rss\<close> and \<open>snr_model\<close> for
  \<open>snr_model.rss_to_snr\<close>.
\<close>

record gateway =
  location :: location
  packet_history :: "nat \<rightharpoonup> real list"
  channel_time_used :: "(int \<times> real) list"
  downlink_packets_lost :: "packet list"
  uplink_packet_weak :: "packet list"
  snr_model :: "real \<Rightarrow> real"
  prop_model :: "real \<Rightarrow> real \<Rightarrow> real"
  num_of_packet_received :: nat

text \<open>The dict \<open>downlink_message\<close>: a key that was never assigned is \<open>None\<close>.\<close>

record downlink_message =
  weak_packet :: "bool option"
  tx_on_rx1 :: "bool option"
  lost :: "bool option"
  msg_dr :: "int option"
  msg_tp :: "real option"

definition empty_message :: downlink_message where
  "empty_message =
     \<lparr>weak_packet = None, tx_on_rx1 = None, lost = None, msg_dr = None, msg_tp = None\<rparr>"

subsection \<open>Tables and helpers\<close>

definition SENSITIVITY :: "int \<rightharpoonup> real" where
  "SENSITIVITY =
     [6 \<mapsto> -121, 7 \<mapsto> -124, 8 \<mapsto> -127, 9 \<mapsto> -130, 10 \<mapsto> -133, 11 \<mapsto> -135, 12 \<mapsto> -137]"

text \<open>
  The \<open>if\<close>/\<open>elif\<close> chain of \<open>adr\<close> that binds \<open>adr_required_snr\<close>; it has no
  \<open>else\<close>, so outside 7..12 the variable stays unbound (\<open>None\<close>).
\<close>

definition adr_required_snr :: "int \<Rightarrow> real option" where
  "adr_required_snr s =
     (if s = 7 then Some (- 15 / 2)
      else if s = 8 then Some (- 10)
      else if s = 9 then Some (- 25 / 2)
      else if s = 10 then Some (- 15)
      else if s = 11 then Some (- 35 / 2)
      else if s = 12 then Some (- 20)
      else None)"

text \<open>\<open>deque(maxlen=20).append\<close>: append on the right, then drop from the left when over capacity.\<close>

definition deque_append :: "real list \<Rightarrow> real \<Rightarrow> real list" where
  "deque_append h x = (let h' = h @ [x] in if length h' > 20 then tl h' else h')"

text \<open>\<open>np.amax\<close> of a one-dimensional array; it raises ValueError on an empty one.\<close>

fun amax :: "real list \<Rightarrow> error + real" where
  "amax [] = Inl ValueError"
| "amax (x # xs) = Inr (fold max xs x)"

text \<open>\<open>np.round\<close>: to the nearest integer, a tie going to the even neighbour.\<close>

definition np_round :: "real \<Rightarrow> int" where
  "np_round x =
     (let f = \<lfloor>x\<rfloor>; d = x - of_int f
      in if d < 1 / 2 then f
         else if 1 / 2 < d then f + 1
         else if even f then f else f + 1)"

subsection \<open>Gateway.adr\<close>

text \<open>
  Lines 141 to 167: from \<open>num_steps\<close> and the current settings to the returned dict
  \<open>{'dr': new_dr, 'tp': new_tx_power}\<close>, as the pair \<open>(new_dr, new_tx_power)\<close>.
  \<open>np.amax\<close> of two numbers is their maximum and \<open>np.amin\<close> their minimum. The
  test \<open>len(history) is 20\<close> of line 115 compares small integers, which CPython keeps
  as single objects, so it is the equality of the length with 20.
\<close>

definition adr_settings :: "int \<Rightarrow> int \<Rightarrow> real \<Rightarrow> int \<times> real" where
  "adr_settings num_steps current_dr current_tx_power =
     (if num_steps > 0 then
        (let num_steps_possible_dr = 5 - current_dr
         in if num_steps > num_steps_possible_dr then
              (let dr_changing = num_steps_possible_dr;
                   num_steps_remaining = num_steps - num_steps_possible_dr;
                   decrease_tx_power = of_int num_steps_remaining * 3
               in (current_dr + dr_changing, max (current_tx_power - decrease_tx_power) 2))
            else (current_dr + num_steps, current_tx_power))
      else if num_steps < 0 then
        (current_dr, min (current_tx_power + of_int (- num_steps) * 3) 14)
      else (current_dr, current_tx_power))"

definition adr ::
  "params \<Rightarrow> gateway \<Rightarrow> node \<Rightarrow> packet \<Rightarrow> error + (gateway \<times> (int \<times> real) option)" where
  "adr P g from_node pkt =
     (case packet_history g (node_id from_node) of
        None \<Rightarrow> Inl KeyError
      | Some history \<Rightarrow>
          if length history = 20 then
            (case amax history of
               Inl e \<Rightarrow> Inl e
             | Inr max_snr \<Rightarrow>
                 (case adr_required_snr (sf (node_lora_param from_node)) of
                    None \<Rightarrow> Inl UnboundLocalError
                  | Some required \<Rightarrow>
                      (let snr_margin = max_snr - required - ADR_MARGIN_DB P;
                           num_steps = np_round (snr_margin / 3)
                       in Inr (g, Some (adr_settings num_steps
                                 (dr (node_lora_param from_node))
                                 (tp (node_lora_param from_node)))))))
          else Inr (g, None))"

subsection \<open>Gateway.check_duty_cycle\<close>

text \<open>
  A dict lookup raises KeyError on a missing key, and the float division raises
  ZeroDivisionError on a zero divisor; the division comes before the lookup of the cap.
\<close>

definition check_duty_cycle ::
  "params \<Rightarrow> gateway \<Rightarrow> int \<Rightarrow> int \<Rightarrow> int \<Rightarrow> real \<Rightarrow> error + (gateway \<times> bool \<times> real)" where
  "check_duty_cycle P g payload_size s f now =
     (let toa = time_on_air P payload_size f s
      in case map_of (channel_time_used g) f of
           None \<Rightarrow> Inl KeyError
         | Some on_time \<Rightarrow>
             if on_time = 0 then Inr (g, True, toa)
             else if now + toa = 0 then Inl ZeroDivisionError
             else
               (let new_duty_cycle = ((on_time + toa) / (now + toa)) * 100
                in case CHANNEL_DUTY_CYCLE_PROC P f of
                     None \<Rightarrow> Inl KeyError
                   | Some cap \<Rightarrow> Inr (g, new_duty_cycle \<le> cap, toa)))"

subsection \<open>Gateway.packet_received\<close>

text \<open>
  Lines 61 to 87, the choice of the receive window: from the data-rate index of the
  packet and the two duty-cycle answers to \<open>(tx_on_rx1, lost)\<close>.
\<close>

definition choose_window :: "int \<Rightarrow> bool \<Rightarrow> bool \<Rightarrow> bool \<times> bool" where
  "choose_window d possible_rx1 possible_rx2 =
     (if d > 3 then
        (if \<not> possible_rx1 then
           (if \<not> possible_rx2 then (False, True) else (False, False))
         else (True, False))
      else
        (if \<not> possible_rx2 then
           (if \<not> possible_rx1 then (False, True) else (True, False))
         else (False, False)))"

text \<open>\<open>self.channel_time_used[f] += t\<close>: a read, which may raise, and a write.\<close>

definition add_time_used :: "gateway \<Rightarrow> int \<Rightarrow> real \<Rightarrow> error + gateway" where
  "add_time_used g f t =
     (case map_of (channel_time_used g) f of
        None \<Rightarrow> Inl KeyError
      | Some u \<Rightarrow> Inr (g\<lparr>channel_time_used := AList.update f (u + t) (channel_time_used g)\<rparr>))"

text \<open>Lines 56 to 98: what follows the call of \<open>adr\<close>.\<close>

definition downlink ::
  "params \<Rightarrow> gateway \<Rightarrow> packet \<Rightarrow> real \<Rightarrow> (int \<times> real) option
     \<Rightarrow> error + (gateway \<times> downlink_message)" where
  "downlink P g pkt now settings =
     (let lp = packet_lora_param pkt
      in case check_duty_cycle P g 12 (sf lp) (freq lp) now of
           Inl e \<Rightarrow> Inl e
         | Inr (g1, possible_rx1, time_on_air_rx1) \<Rightarrow>
             (case check_duty_cycle P g1 12 (RX_2_DEFAULT_SF P) (RX_2_DEFAULT_FREQ P) now of
                Inl e \<Rightarrow> Inl e
              | Inr (g2, possible_rx2, time_on_air_rx2) \<Rightarrow>
                  (let (on_rx1, is_lost) = choose_window (dr lp) possible_rx1 possible_rx2;
                       g3 = (if is_lost
                             then g2\<lparr>downlink_packets_lost := downlink_packets_lost g2 @ [pkt]\<rparr>
                             else g2);
                       m = empty_message\<lparr>tx_on_rx1 := Some on_rx1, lost := Some is_lost\<rparr>;
                       m' = (case settings of
                               None \<Rightarrow> m
                             | Some (new_dr, new_tp) \<Rightarrow>
                                 m\<lparr>msg_dr := Some new_dr, msg_tp := Some new_tp\<rparr>)
                   in if \<not> is_lost then
                        (case (if on_rx1 then add_time_used g3 (freq lp) time_on_air_rx1
                               else add_time_used g3 (RX_2_DEFAULT_FREQ P) time_on_air_rx2) of
                           Inl e \<Rightarrow> Inl e
                         | Inr g4 \<Rightarrow> Inr (g4, m'))
                      else Inr (g3, m'))))"

definition packet_received ::
  "params \<Rightarrow> gateway \<Rightarrow> node \<Rightarrow> packet \<Rightarrow> real \<Rightarrow> error + (gateway \<times> downlink_message)" where
  "packet_received P g from_node pkt now =
     (let g1 = (if node_id from_node \<notin> dom (packet_history g)
                then g\<lparr>packet_history := (packet_history g)(node_id from_node \<mapsto> [])\<rparr>
                else g);
          rss = prop_model g1 (tp (packet_lora_param pkt))
                  (distance P (location g1) (node_location from_node))
      in case SENSITIVITY (sf (packet_lora_param pkt)) of
           None \<Rightarrow> Inl KeyError
         | Some threshold \<Rightarrow>
             if rss < threshold then
               Inr (g1\<lparr>uplink_packet_weak := uplink_packet_weak g1 @ [pkt]\<rparr>,
                    empty_message\<lparr>weak_packet := Some True\<rparr>)
             else
               (let g2 = g1\<lparr>num_of_packet_received := num_of_packet_received g1 + 1\<rparr>;
                    snr = snr_model g2 rss
                in case packet_history g2 (node_id from_node) of
                     None \<Rightarrow> Inl KeyError
                   | Some h \<Rightarrow>
                       (let g3 = g2\<lparr>packet_history :=
                                   (packet_history g2)(node_id from_node \<mapsto> deque_append h snr)\<rparr>
                        in case adr P g3 from_node pkt of
                             Inl e \<Rightarrow> Inl e
                           | Inr (g4, settings) \<Rightarrow> downlink P g4 pkt now settings)))"

subsection \<open>Gateway.__init__ and Gateway.log\<close>

definition init ::
  "params \<Rightarrow> location \<Rightarrow> (real \<Rightarrow> real) \<Rightarrow> (real \<Rightarrow> real \<Rightarrow> real) \<Rightarrow> gateway" where
  "init P loc snr_m prop_m =
     \<lparr>location = loc,
      packet_history = Map.empty,
      channel_time_used =
        fold (\<lambda>c d. AList.update c 0 d) (DEFAULT_CHANNELS P)
          (fold (\<lambda>c d. AList.update c 0 d) (CHANNELS P) []),
      downlink_packets_lost = [],
      uplink_packet_weak = [],
      snr_model = snr_m,
      prop_model = prop_m,
      num_of_packet_received = 0\<rparr>"

text \<open>
  \<open>log\<close> (here \<open>gateway_log\<close>, the name \<open>log\<close> being the logarithm) prints and
  returns nothing; the model returns the values it prints, in order, or the exception
  it raises. \<open>env_now\<close> is \<open>self.env.now\<close>.
\<close>

datatype log_line =
  Banner
| Received nat
| Lost nat
| Ratio_lost real
| Channel_on_air int real
| Ratio_weak real

fun log_channels :: "(int \<times> real) list \<Rightarrow> real \<Rightarrow> error + log_line list" where
  "log_channels [] env_now = Inr []"
| "log_channels ((channel, used) # rest) env_now =
     (if env_now = 0 then Inl ZeroDivisionError
      else (case log_channels rest env_now of
              Inl e \<Rightarrow> Inl e
            | Inr ls \<Rightarrow> Inr (Channel_on_air channel (used / env_now * 100) # ls)))"

definition gateway_log :: "gateway \<Rightarrow> real \<Rightarrow> error + (gateway \<times> log_line list)" where
  "gateway_log g env_now =
     (let n_lost = length (downlink_packets_lost g);
          n_weak = length (uplink_packet_weak g);
          n_recv = num_of_packet_received g;
          head = [Banner, Received n_recv, Lost n_lost] @
                 (if n_lost \<noteq> 0 \<and> n_recv \<noteq> 0
                  then [Ratio_lost (real n_lost / real n_recv * 100)] else [])
      in case log_channels (channel_time_used g) env_now of
           Inl e \<Rightarrow> Inl e
         | Inr ls \<Rightarrow>
             Inr (g, head @ ls @
                     (if n_weak \<noteq> 0 \<and> n_recv \<noteq> 0
                      then [Ratio_weak (real n_weak / real n_recv * 100)] else [])))"

subsection \<open>A run of the simulation engine\<close>

text \<open>
  The engine calls \<open>packet_received\<close> once per arrival, one call after the other. A run
  is the list of the arrivals; it stops at the first exception.
\<close>

fun receive_all :: "params \<Rightarrow> gateway \<Rightarrow> (node \<times> packet \<times> real) list \<Rightarrow> error + gateway" where
  "receive_all P g [] = Inr g"
| "receive_all P g ((from_node, pkt, now) # rest) =
     (case packet_received P g from_node pkt now of
        Inl e \<Rightarrow> Inl e
      | Inr (g', m) \<Rightarrow> receive_all P g' rest)"

subsection \<open>Notions used in the statements\<close>

text \<open>The samples held for a transmitter; none when it has no deque yet.\<close>

definition history_of :: "gateway \<Rightarrow> nat \<Rightarrow> real list" where
  "history_of g k = (case packet_history g k of None \<Rightarrow> [] | Some h \<Rightarrow> h)"

text \<open>Line 43: the received signal strength of a packet.\<close>

definition rss_of :: "params \<Rightarrow> gateway \<Rightarrow> node \<Rightarrow> packet \<Rightarrow> real" where
  "rss_of P g from_node pkt =
     prop_model g (tp (packet_lora_param pkt)) (distance P (location g) (node_location from_node))"

text \<open>Line 44: the test of the filter, for a spreading factor of the sensitivity table.\<close>

definition too_weak :: "params \<Rightarrow> gateway \<Rightarrow> node \<Rightarrow> packet \<Rightarrow> bool" where
  "too_weak P g from_node pkt =
     (case SENSITIVITY (sf (packet_lora_param pkt)) of
        None \<Rightarrow> False
      | Some threshold \<Rightarrow> rss_of P g from_node pkt < threshold)"

text \<open>Lines 41 and 42: the gateway once the transmitter has a deque.\<close>

definition with_history :: "gateway \<Rightarrow> nat \<Rightarrow> gateway" where
  "with_history g k = g\<lparr>packet_history := (packet_history g)(k \<mapsto> history_of g k)\<rparr>"

text \<open>Lines 41 to 53: the gateway when \<open>adr\<close> is called for a packet that passed the filter.\<close>

definition accept_state :: "params \<Rightarrow> gateway \<Rightarrow> node \<Rightarrow> packet \<Rightarrow> gateway" where
  "accept_state P g from_node pkt =
     g\<lparr>num_of_packet_received := num_of_packet_received g + 1,
       packet_history := (packet_history g)(node_id from_node \<mapsto>
          deque_append (history_of g (node_id from_node)) (snr_model g (rss_of P g from_node pkt)))\<rparr>"

text \<open>The last 20 elements of a list, all of it when it is shorter.\<close>

definition keep_last :: "real list \<Rightarrow> real list" where
  "keep_last xs = drop (length xs - 20) xs"

text \<open>
  The SNR samples, in order of arrival, of the arrivals of a run that come from
  transmitter \<open>k\<close> and pass the filter.
\<close>

definition accepted_snrs ::
  "params \<Rightarrow> gateway \<Rightarrow> nat \<Rightarrow> (node \<times> packet \<times> real) list \<Rightarrow> real list" where
  "accepted_snrs P g k evs =
     map (\<lambda>(from_node, pkt, now). snr_model g (rss_of P g from_node pkt))
       (filter (\<lambda>(from_node, pkt, now). node_id from_node = k \<and> \<not> too_weak P g from_node pkt) evs)"

text \<open>Two gateways at the same place with the same propagation and SNR models.\<close>

definition same_radio :: "gateway \<Rightarrow> gateway \<Rightarrow> bool" where
  "same_radio g g' \<longleftrightarrow>
     location g' = location g \<and> prop_model g' = prop_model g \<and> snr_model g' = snr_model g"

subsection \<open>A concrete gateway\<close>

text \<open>
  One gateway at the origin with four channels, one transmitter at distance 70, and a
  history of twenty samples whose maximum is 5.
\<close>

definition scenario_history :: "real list" where
  "scenario_history = [1, -2, 5, 0, 3, -4, 2, 5, 1, 0, -1, 4, 3, 2, -6, 0, 1, 2, 3, 4]"

definition scenario_params :: params where
  "scenario_params =
     \<lparr>CHANNELS = [8681, 8683, 8685, 8695], DEFAULT_CHANNELS = [8681, 8683, 8685],
      CHANNEL_DUTY_CYCLE_PROC = [8681 \<mapsto> 1, 8683 \<mapsto> 1, 8685 \<mapsto> 1, 8695 \<mapsto> 10],
      RX_2_DEFAULT_SF = 12, RX_2_DEFAULT_FREQ = 8695, ADR_MARGIN_DB = 10,
      distance = (\<lambda>a b. \<bar>fst a - fst b\<bar> + \<bar>snd a - snd b\<bar>),
      time_on_air = (\<lambda>size f s. 2)\<rparr>"

definition scenario_gateway :: "real list \<Rightarrow> gateway" where
  "scenario_gateway h =
     \<lparr>location = (0, 0), packet_history = [1 \<mapsto> h],
      channel_time_used = [(8681, 0), (8683, 5), (8685, 0), (8695, 0)],
      downlink_packets_lost = [], uplink_packet_weak = [],
      snr_model = (\<lambda>rss. rss + 120), prop_model = (\<lambda>t d. t - d),
      num_of_packet_received = 20\<rparr>"

definition scenario_node :: "int \<Rightarrow> node" where
  "scenario_node s =
     \<lparr>node_id = 1, node_location = (30, 40),
      node_lora_param = \<lparr>freq = 8683, sf = s, dr = 2, tp = 14\<rparr>\<rparr>"

definition scenario_packet :: "int \<Rightarrow> packet" where
  "scenario_packet s = \<lparr>packet_lora_param = \<lparr>freq = 8683, sf = s, dr = 2, tp = 14\<rparr>\<rparr>"

text \<open>
  A packet with data-rate index 5, and a gateway whose two candidate channels are both
  far above their caps.
\<close>

definition fast_packet :: packet where
  "fast_packet = \<lparr>packet_lora_param = \<lparr>freq = 8683, sf = 7, dr = 5, tp = 14\<rparr>\<rparr>"

definition busy_gateway :: gateway where
  "busy_gateway = (scenario_gateway [])\<lparr>channel_time_used := [(8683, 500), (8695, 500)]\<rparr>"

text \<open>
  A gateway as \<open>__init__\<close> leaves it, and 21 arrivals from transmitter 1, one every
  1000 seconds, each with its own transmit power; the SNR sample of an arrival is its
  transmit power plus 50.
\<close>

definition fresh_gateway :: gateway where
  "fresh_gateway = init scenario_params (0, 0) (\<lambda>rss. rss + 120) (\<lambda>t d. t - d)"

fun arrivals :: "real \<Rightarrow> real list \<Rightarrow> (node \<times> packet \<times> real) list" where
  "arrivals now [] = []"
| "arrivals now (t # ts) =
     (scenario_node 7, \<lparr>packet_lora_param = \<lparr>freq = 8683, sf = 7, dr = 2, tp = t\<rparr>\<rparr>, now)
       # arrivals (now + 1000) ts"

definition scenario_events :: "(node \<times> packet \<times> real) list" where
  "scenario_events =
     arrivals 1000 [3, 1, 4, 15, 9, 2, 6, 5, 35, 8, 97, 93, 23, 84, 62, 64, 33, 83, 27, 95, 10]"

text \<open>
  A history of twenty samples whose maximum is -5, and transmitter 1 at transmit power 5.
\<close>

definition poor_history :: "real list" where
  "poor_history = map (\<lambda>x. x - 10) scenario_history"

definition low_power_node :: node where
  "low_power_node =
     \<lparr>node_id = 1, node_location = (30, 40),
      node_lora_param = \<lparr>freq = 8683, sf = 7, dr = 2, tp = 5\<rparr>\<rparr>"

section \<open>Properties\<close>

subsection \<open>Helper lemmas\<close>

lemma amax_Max:
  assumes "xs \<noteq> []"
  shows "amax xs = Inr (Max (set xs))"
proof (cases xs)
  case Nil
  with assms show ?thesis by simp
next
  case (Cons a list)
  have "fold max list a = Max (set (a # list))"
    by (rule Max.set_eq_fold [symmetric])
  with Cons show ?thesis by simp
qed

lemma scenario_history_facts:
  "length scenario_history = 20" "amax scenario_history = Inr 5"
  by (simp_all add: scenario_history_def)

lemma adr_required_snr_Some:
  assumes "7 \<le> s" and "s \<le> 12"
  shows "\<exists>r. adr_required_snr s = Some r"
proof -
  from assms have "s = 7 \<or> s = 8 \<or> s = 9 \<or> s = 10 \<or> s = 11 \<or> s = 12"
    by arith
  then show ?thesis
    by (auto simp: adr_required_snr_def)
qed

subsection \<open>The ADR controller\<close>

text \<open>
  C1, as the code has it. With a full history of maximum 5, spreading factor 9, margin
  10, data rate 2 and power 14, the SNR margin is 7.5 and 7.5 / 3 = 2.5 is a tie, which
  \<open>np.round\<close> sends to the even neighbour 2: the proposal is data rate 4, power 14.
\<close>

theorem adr_scenario:
  assumes "packet_history g (node_id n) = Some h" and "length h = 20" and "amax h = Inr 5"
    and "sf (node_lora_param n) = 9" and "ADR_MARGIN_DB P = 10"
    and "dr (node_lora_param n) = 2" and "tp (node_lora_param n) = 14"
  shows "5 - (- 25 / 2) - ADR_MARGIN_DB P = 15 / 2 \<and> np_round ((15 / 2) / 3) = 2
         \<and> adr P g n p = Inr (g, Some (4, 14))"
  using assms by (simp add: adr_def adr_required_snr_def np_round_def Let_def adr_settings_def)

theorem adr_scenario_witness:
  "adr scenario_params (scenario_gateway scenario_history) (scenario_node 9) (scenario_packet 9)
     = Inr (scenario_gateway scenario_history, Some (4, 14))"
  using adr_scenario [of "scenario_gateway scenario_history" "scenario_node 9" scenario_history
      scenario_params "scenario_packet 9"]
  by (simp add: scenario_gateway_def scenario_node_def scenario_params_def scenario_history_facts)

text \<open>
  C1, as the claim states it, fails on the concrete gateway: the step count is not 3 and
  the proposal is not data rate 5 with power 14.
\<close>

theorem adr_scenario_counterexample:
  "length scenario_history = 20 \<and> amax scenario_history = Inr 5
   \<and> sf (node_lora_param (scenario_node 9)) = 9 \<and> ADR_MARGIN_DB scenario_params = 10
   \<and> dr (node_lora_param (scenario_node 9)) = 2 \<and> tp (node_lora_param (scenario_node 9)) = 14
   \<and> packet_history (scenario_gateway scenario_history) (node_id (scenario_node 9))
       = Some scenario_history
   \<and> np_round ((5 - (- 25 / 2) - 10) / 3) \<noteq> 3
   \<and> adr scenario_params (scenario_gateway scenario_history) (scenario_node 9) (scenario_packet 9)
       \<noteq> Inr (scenario_gateway scenario_history, Some (5, 14))"
  by (simp add: scenario_history_facts scenario_gateway_def scenario_node_def scenario_params_def
      adr_def adr_required_snr_def np_round_def Let_def adr_settings_def)

text \<open>
  C10. Spreading factor 6 has an entry in the sensitivity table, so the filter of
  \<open>packet_received\<close> lets such a packet through; \<open>adr\<close> on a full history of a
  transmitter with spreading factor 6 raises UnboundLocalError, no branch of the chain
  having bound \<open>adr_required_snr\<close>.
\<close>

theorem adr_sf6_raises:
  "SENSITIVITY 6 = Some (- 121) \<and>
   (packet_history g (node_id n) = Some h \<and> length h = 20 \<and> sf (node_lora_param n) = 6
      \<longrightarrow> adr P g n p = Inl UnboundLocalError)"
  by (cases h) (simp_all add: SENSITIVITY_def adr_def adr_required_snr_def)

theorem adr_sf6_raises_witness:
  "SENSITIVITY 6 = Some (- 121) \<and>
   adr scenario_params (scenario_gateway scenario_history) (scenario_node 6) (scenario_packet 6)
     = Inl UnboundLocalError"
  using adr_sf6_raises [of "scenario_gateway scenario_history" "scenario_node 6" scenario_history
      scenario_params "scenario_packet 6"]
  by (simp add: scenario_gateway_def scenario_node_def scenario_history_facts)

text \<open>
  C3, as the claim states it, fails for a transmitter outside spreading factors 7..12:
  with a history of 20 samples \<open>adr\<close> returns neither \<open>None\<close> nor a proposal.
\<close>

theorem adr_proposal_counterexample:
  "packet_history (scenario_gateway scenario_history) (node_id (scenario_node 6))
     = Some scenario_history
   \<and> length scenario_history = 20
   \<and> adr scenario_params (scenario_gateway scenario_history) (scenario_node 6) (scenario_packet 6)
       = Inl UnboundLocalError"
  by (simp add: scenario_gateway_def scenario_node_def scenario_history_facts
      adr_def adr_required_snr_def)

text \<open>
  C3, amended. For a transmitter that has a history (of at most 20 samples, the capacity
  of the deque), \<open>adr\<close> returns \<open>None\<close> exactly when the history holds fewer than 20
  samples; with 20 samples and a spreading factor in 7..12 it returns exactly one
  proposal. The gateway is returned as it was.
\<close>

theorem adr_proposal_iff:
  assumes "packet_history g (node_id n) = Some h" and "length h \<le> 20"
  shows "(adr P g n p = Inr (g, None) \<longleftrightarrow> length h < 20)
         \<and> (length h = 20 \<and> sf (node_lora_param n) \<in> {7..12}
              \<longrightarrow> (\<exists>!s. adr P g n p = Inr (g, Some s)))"
proof -
  have "adr P g n p = Inr (g, None) \<longleftrightarrow> length h < 20"
    using assms
    by (cases h) (auto simp: adr_def Let_def split: option.splits)
  moreover have "\<exists>!s. adr P g n p = Inr (g, Some s)"
    if "length h = 20" and "sf (node_lora_param n) \<in> {7..12}"
  proof -
    from that(1) have "h \<noteq> []" by auto
    then obtain m where "amax h = Inr m" by (cases h) auto
    moreover from that(2) obtain r where "adr_required_snr (sf (node_lora_param n)) = Some r"
      using adr_required_snr_Some [of "sf (node_lora_param n)"] by auto
    ultimately show ?thesis
      using assms(1) that(1) by (simp add: adr_def Let_def)
  qed
  ultimately show ?thesis by blast
qed

theorem adr_proposal_iff_witness:
  "adr scenario_params (scenario_gateway [1, 2, 3]) (scenario_node 9) (scenario_packet 9)
     = Inr (scenario_gateway [1, 2, 3], None)
   \<and> (\<exists>s. adr scenario_params (scenario_gateway scenario_history) (scenario_node 9)
             (scenario_packet 9) = Inr (scenario_gateway scenario_history, Some s))"
  using adr_proposal_iff [of "scenario_gateway [1, 2, 3]" "scenario_node 9" "[1, 2, 3]"
      scenario_params "scenario_packet 9"]
    adr_proposal_iff [of "scenario_gateway scenario_history" "scenario_node 9" scenario_history
      scenario_params "scenario_packet 9"]
  by (auto simp: scenario_gateway_def scenario_node_def scenario_history_facts)

text \<open>
  The branches of lines 147 to 163, for any step count, current data rate and power.
\<close>

lemma adr_settings_table:
  assumes "adr_settings k d t = (nd, nt)"
  shows "(0 < k \<and> k \<le> 5 - d \<longrightarrow> nd = d + k \<and> nt = t)
       \<and> (0 < k \<and> 5 - d < k \<longrightarrow> nd = 5 \<and> nt = max (t - 3 * of_int (k - (5 - d))) 2)
       \<and> (k < 0 \<longrightarrow> nd = d \<and> nt = min (t + 3 * of_int (- k)) 14)
       \<and> (k = 0 \<longrightarrow> nd = d \<and> nt = t)"
  using assms by (auto simp: adr_settings_def Let_def mult.commute split: if_splits)

lemma scenario_history_Max: "Max (set scenario_history) = 5"
  by (simp add: scenario_history_def)

text \<open>
  \<open>np_round\<close> is rounding to the nearest integer with ties to even, and nothing else is.
\<close>

lemma np_round_nearest:
  "\<bar>x - of_int (np_round x)\<bar> \<le> 1 / 2
   \<and> (\<bar>x - of_int (np_round x)\<bar> = 1 / 2 \<longrightarrow> even (np_round x))"
proof -
  define f where "f = \<lfloor>x\<rfloor>"
  define d where "d = x - of_int f"
  have d: "0 \<le> d" "d < 1"
    unfolding d_def f_def by linarith+
  have x: "x = of_int f + d"
    by (simp add: d_def)
  consider "d < 1 / 2" | "1 / 2 < d" | "d = 1 / 2" "even f" | "d = 1 / 2" "odd f"
    by fastforce
  then show ?thesis
  proof cases
    case 1
    then have "np_round x = f" by (simp add: np_round_def Let_def f_def d_def)
    with 1 d x show ?thesis by simp
  next
    case 2
    then have "np_round x = f + 1" by (simp add: np_round_def Let_def f_def d_def)
    with 2 d x show ?thesis by simp
  next
    case 3
    then have "np_round x = f" by (simp add: np_round_def Let_def f_def d_def)
    with 3 d x show ?thesis by simp
  next
    case 4
    then have "np_round x = f + 1" by (simp add: np_round_def Let_def f_def d_def)
    with 4 d x show ?thesis by simp
  qed
qed

lemma np_round_unique:
  assumes "\<bar>x - of_int k\<bar> \<le> 1 / 2" and "\<bar>x - of_int k\<bar> = 1 / 2 \<longrightarrow> even k"
  shows "np_round x = k"
proof -
  define f where "f = \<lfloor>x\<rfloor>"
  define d where "d = x - of_int f"
  have d: "0 \<le> d" "d < 1"
    unfolding d_def f_def by linarith+
  have x: "x = of_int f + d"
    by (simp add: d_def)
  from assms(1) x d have "of_int k - (of_int f :: real) < 2" "(of_int f :: real) - of_int k < 1"
    by linarith+
  then have "k - f < 2" "f - k < 1"
    by linarith+
  then have k: "k = f \<or> k = f + 1" by linarith
  consider "d < 1 / 2" | "1 / 2 < d" | "d = 1 / 2"
    by fastforce
  then show ?thesis
  proof cases
    case 1
    with k assms(1) x have "k = f" by auto
    moreover from 1 have "np_round x = f" by (simp add: np_round_def Let_def f_def d_def)
    ultimately show ?thesis by simp
  next
    case 2
    with k assms(1) x have "k = f + 1" by auto
    moreover from 2 have "np_round x = f + 1" by (simp add: np_round_def Let_def f_def d_def)
    ultimately show ?thesis by simp
  next
    case 3
    with k x have "\<bar>x - of_int k\<bar> = 1 / 2" by auto
    with assms(2) have e: "even k" by simp
    from 3 have "np_round x = (if even f then f else f + 1)"
      by (simp add: np_round_def Let_def f_def d_def)
    with k e show ?thesis by auto
  qed
qed

lemma required_table:
  assumes "7 \<le> s" and "s \<le> 12"
  shows "adr_required_snr s =
           Some (if s = 7 then - 15 / 2 else if s = 8 then - 10 else if s = 9 then - 25 / 2
                 else if s = 10 then - 15 else if s = 11 then - 35 / 2 else - 20)"
proof -
  from assms have "s = 7 \<or> s = 8 \<or> s = 9 \<or> s = 10 \<or> s = 11 \<or> s = 12"
    by arith
  then show ?thesis
    by (auto simp: adr_required_snr_def)
qed

lemma poor_history_facts:
  "length poor_history = 20" "Max (set poor_history) = - 5"
  by (simp_all add: poor_history_def scenario_history_def)

lemma scenario_hist:
  "packet_history (scenario_gateway h) (node_id (scenario_node s)) = Some h"
  "packet_history (scenario_gateway h) (node_id low_power_node) = Some h"
  by (simp_all add: scenario_gateway_def scenario_node_def low_power_node_def)

lemma scenario_sf:
  "sf (node_lora_param (scenario_node 8)) \<in> {7..12}"
  "sf (node_lora_param (scenario_node 9)) \<in> {7..12}"
  "sf (node_lora_param (scenario_node 10)) \<in> {7..12}"
  "sf (node_lora_param (scenario_node 11)) \<in> {7..12}"
  "sf (node_lora_param low_power_node) \<in> {7..12}"
  by (simp_all add: scenario_node_def low_power_node_def)

lemmas scenario_values =
  scenario_node_def low_power_node_def scenario_params_def scenario_history_Max
  poor_history_facts Let_def

text \<open>
  C4. For a full history of 20 samples and a spreading factor in 7..12, \<open>adr\<close> returns
  one proposal \<open>(new_dr, new_tp)\<close> and leaves the gateway as it was. The required SNR
  is -7.5, -10, -12.5, -15, -17.5, -20 for the spreading factors 7 to 12, and
  \<open>step_count\<close> is (maximum of the history - required SNR - margin) / 3 rounded to the
  nearest integer, a tie going to the even one; that integer is unique. A positive step
  count within the room \<open>5 - current_dr\<close> is added to the data rate and the power
  stays; a positive step count above the room gives data rate 5 and lowers the power by
  3 dB per remaining step, not below 2; a negative step count keeps the data rate and
  raises the power by 3 dB per step, not above 14; a step count of 0 changes nothing.
  (For a data rate of at most 5 a step count above the room is positive.)
\<close>

theorem adr_branch_table:
  assumes "packet_history g (node_id n) = Some h" and "length h = 20"
    and "sf (node_lora_param n) \<in> {7..12}"
  shows "let s = sf (node_lora_param n);
             current_dr = dr (node_lora_param n);
             current_tp = tp (node_lora_param n);
             required = (if s = 7 then - 15 / 2 else if s = 8 then - 10
                         else if s = 9 then - 25 / 2 else if s = 10 then - 15
                         else if s = 11 then - 35 / 2 else - 20);
             x = (Max (set h) - required - ADR_MARGIN_DB P) / 3
         in \<exists>step_count new_dr new_tp.
              \<bar>x - of_int step_count\<bar> \<le> 1 / 2
            \<and> (\<bar>x - of_int step_count\<bar> = 1 / 2 \<longrightarrow> even step_count)
            \<and> (\<forall>k. \<bar>x - of_int k\<bar> \<le> 1 / 2 \<and> (\<bar>x - of_int k\<bar> = 1 / 2 \<longrightarrow> even k)
                   \<longrightarrow> k = step_count)
            \<and> adr P g n p = Inr (g, Some (new_dr, new_tp))
            \<and> (0 < step_count \<and> step_count \<le> 5 - current_dr
                  \<longrightarrow> new_dr = current_dr + step_count \<and> new_tp = current_tp)
            \<and> (0 < step_count \<and> 5 - current_dr < step_count
                  \<longrightarrow> new_dr = 5
                    \<and> new_tp = max (current_tp - 3 * of_int (step_count - (5 - current_dr))) 2)
            \<and> (step_count < 0
                  \<longrightarrow> new_dr = current_dr
                    \<and> new_tp = min (current_tp + 3 * of_int (- step_count)) 14)
            \<and> (step_count = 0 \<longrightarrow> new_dr = current_dr \<and> new_tp = current_tp)"
proof -
  define r :: real where "r = (if sf (node_lora_param n) = 7 then - 15 / 2
      else if sf (node_lora_param n) = 8 then - 10
      else if sf (node_lora_param n) = 9 then - 25 / 2
      else if sf (node_lora_param n) = 10 then - 15
      else if sf (node_lora_param n) = 11 then - 35 / 2 else - 20)"
  define x where "x = (Max (set h) - r - ADR_MARGIN_DB P) / 3"
  define k where "k = np_round x"
  from assms(2) have "h \<noteq> []" by auto
  then have m: "amax h = Inr (Max (set h))" by (rule amax_Max)
  from assms(3) have req: "adr_required_snr (sf (node_lora_param n)) = Some r"
    using required_table [of "sf (node_lora_param n)"] by (simp add: r_def)
  have a: "adr P g n p
             = Inr (g, Some (adr_settings k (dr (node_lora_param n)) (tp (node_lora_param n))))"
    using assms(1,2) m req by (simp add: adr_def Let_def k_def x_def)
  obtain nd nt where s: "adr_settings k (dr (node_lora_param n)) (tp (node_lora_param n)) = (nd, nt)"
    by (cases "adr_settings k (dr (node_lora_param n)) (tp (node_lora_param n))")
  have res: "adr P g n p = Inr (g, Some (nd, nt))"
    using a s by simp
  have near: "\<bar>x - of_int k\<bar> \<le> 1 / 2" "\<bar>x - of_int k\<bar> = 1 / 2 \<longrightarrow> even k"
    using np_round_nearest [of x] by (simp_all add: k_def)
  have uniq: "\<forall>j. \<bar>x - of_int j\<bar> \<le> 1 / 2 \<and> (\<bar>x - of_int j\<bar> = 1 / 2 \<longrightarrow> even j) \<longrightarrow> j = k"
    using np_round_unique [of x] by (auto simp: k_def)
  note t = adr_settings_table [OF s]
  have "\<exists>step_count new_dr new_tp.
              \<bar>x - of_int step_count\<bar> \<le> 1 / 2
            \<and> (\<bar>x - of_int step_count\<bar> = 1 / 2 \<longrightarrow> even step_count)
            \<and> (\<forall>k. \<bar>x - of_int k\<bar> \<le> 1 / 2 \<and> (\<bar>x - of_int k\<bar> = 1 / 2 \<longrightarrow> even k)
                   \<longrightarrow> k = step_count)
            \<and> adr P g n p = Inr (g, Some (new_dr, new_tp))
            \<and> (0 < step_count \<and> step_count \<le> 5 - dr (node_lora_param n)
                  \<longrightarrow> new_dr = dr (node_lora_param n) + step_count \<and> new_tp = tp (node_lora_param n))
            \<and> (0 < step_count \<and> 5 - dr (node_lora_param n) < step_count
                  \<longrightarrow> new_dr = 5
                    \<and> new_tp = max (tp (node_lora_param n)
                                    - 3 * of_int (step_count - (5 - dr (node_lora_param n)))) 2)
            \<and> (step_count < 0
                  \<longrightarrow> new_dr = dr (node_lora_param n)
                    \<and> new_tp = min (tp (node_lora_param n) + 3 * of_int (- step_count)) 14)
            \<and> (step_count = 0
                  \<longrightarrow> new_dr = dr (node_lora_param n) \<and> new_tp = tp (node_lora_param n))"
  proof (rule exI [of _ k], rule exI [of _ nd], rule exI [of _ nt], intro conjI)
    show "\<bar>x - of_int k\<bar> \<le> 1 / 2" by (rule near(1))
    show "\<bar>x - of_int k\<bar> = 1 / 2 \<longrightarrow> even k" by (rule near(2))
    show "\<forall>j. \<bar>x - of_int j\<bar> \<le> 1 / 2 \<and> (\<bar>x - of_int j\<bar> = 1 / 2 \<longrightarrow> even j) \<longrightarrow> j = k"
      by (rule uniq)
    show "adr P g n p = Inr (g, Some (nd, nt))" by (rule res)
    show "0 < k \<and> k \<le> 5 - dr (node_lora_param n)
            \<longrightarrow> nd = dr (node_lora_param n) + k \<and> nt = tp (node_lora_param n)"
      using t by (rule conjunct1)
    show "0 < k \<and> 5 - dr (node_lora_param n) < k
            \<longrightarrow> nd = 5
              \<and> nt = max (tp (node_lora_param n) - 3 * of_int (k - (5 - dr (node_lora_param n)))) 2"
      using t by (rule conjunct2 [THEN conjunct1])
    show "k < 0 \<longrightarrow> nd = dr (node_lora_param n)
              \<and> nt = min (tp (node_lora_param n) + 3 * of_int (- k)) 14"
      using t by (rule conjunct2 [THEN conjunct2, THEN conjunct1])
    show "k = 0 \<longrightarrow> nd = dr (node_lora_param n) \<and> nt = tp (node_lora_param n)"
      using t by (rule conjunct2 [THEN conjunct2, THEN conjunct2])
  qed
  then show ?thesis
    unfolding Let_def x_def r_def .
qed

theorem adr_branch_table_witness:
  "adr scenario_params (scenario_gateway scenario_history) (scenario_node 8) (scenario_packet 8)
     = Inr (scenario_gateway scenario_history, Some (4, 14))
   \<and> adr scenario_params (scenario_gateway scenario_history) (scenario_node 9) (scenario_packet 9)
     = Inr (scenario_gateway scenario_history, Some (4, 14))
   \<and> adr scenario_params (scenario_gateway scenario_history) (scenario_node 10) (scenario_packet 10)
     = Inr (scenario_gateway scenario_history, Some (5, 14))
   \<and> adr scenario_params (scenario_gateway scenario_history) (scenario_node 11) (scenario_packet 11)
     = Inr (scenario_gateway scenario_history, Some (5, 11))
   \<and> adr scenario_params (scenario_gateway poor_history) low_power_node (scenario_packet 7)
     = Inr (scenario_gateway poor_history, Some (2, 11))"
proof (intro conjI)
  show "adr scenario_params (scenario_gateway scenario_history) (scenario_node 8) (scenario_packet 8)
     = Inr (scenario_gateway scenario_history, Some (4, 14))"
    using adr_branch_table [OF scenario_hist(1) scenario_history_facts(1) scenario_sf(1),
        of scenario_params "scenario_packet 8"]
    by (simp add: scenario_values) (elim exE conjE, drule spec [of _ 2], auto)
  show "adr scenario_params (scenario_gateway scenario_history) (scenario_node 9) (scenario_packet 9)
     = Inr (scenario_gateway scenario_history, Some (4, 14))"
    using adr_branch_table [OF scenario_hist(1) scenario_history_facts(1) scenario_sf(2),
        of scenario_params "scenario_packet 9"]
    by (simp add: scenario_values) (elim exE conjE, drule spec [of _ 2], auto)
  show "adr scenario_params (scenario_gateway scenario_history) (scenario_node 10) (scenario_packet 10)
     = Inr (scenario_gateway scenario_history, Some (5, 14))"
    using adr_branch_table [OF scenario_hist(1) scenario_history_facts(1) scenario_sf(3),
        of scenario_params "scenario_packet 10"]
    by (simp add: scenario_values) (elim exE conjE, drule spec [of _ 3], auto)
  show "adr scenario_params (scenario_gateway scenario_history) (scenario_node 11) (scenario_packet 11)
     = Inr (scenario_gateway scenario_history, Some (5, 11))"
    using adr_branch_table [OF scenario_hist(1) scenario_history_facts(1) scenario_sf(4),
        of scenario_params "scenario_packet 11"]
    by (simp add: scenario_values) (elim exE conjE, drule spec [of _ 4], auto)
  show "adr scenario_params (scenario_gateway poor_history) low_power_node (scenario_packet 7)
     = Inr (scenario_gateway poor_history, Some (2, 11))"
    using adr_branch_table [OF scenario_hist(2) poor_history_facts(1) scenario_sf(5),
        of scenario_params "scenario_packet 7"]
    by (simp add: scenario_values) (elim exE conjE, drule spec [of _ "- 2"], auto)
qed

subsection \<open>Duty-cycle admission\<close>

text \<open>
  C6. For a channel that has an entry in the ledger: when its used time is zero,
  \<open>check_duty_cycle\<close> returns admissible with the computed time on air, whatever
  \<open>now\<close> is; otherwise (the channel having a cap, and \<open>now + time_on_air\<close> not being
  zero, so that the quotient exists) it returns admissible exactly when
  (used + time_on_air) / (now + time_on_air) * 100 is at most the cap, again with the
  computed time on air.
\<close>

theorem check_duty_cycle_admissible:
  assumes "map_of (channel_time_used g) f = Some used"
  shows "(used = 0 \<longrightarrow>
            check_duty_cycle P g payload_size s f now
              = Inr (g, True, time_on_air P payload_size f s))
       \<and> (used \<noteq> 0 \<and> now + time_on_air P payload_size f s \<noteq> 0
            \<and> CHANNEL_DUTY_CYCLE_PROC P f = Some cap \<longrightarrow>
            check_duty_cycle P g payload_size s f now
              = Inr (g,
                  (used + time_on_air P payload_size f s)
                    / (now + time_on_air P payload_size f s) * 100 \<le> cap,
                  time_on_air P payload_size f s))"
  using assms by (simp add: check_duty_cycle_def Let_def)

theorem check_duty_cycle_admissible_witness:
  "check_duty_cycle scenario_params (scenario_gateway []) 12 7 8681 0
     = Inr (scenario_gateway [], True, 2)
   \<and> check_duty_cycle scenario_params (scenario_gateway []) 12 7 8683 1000
     = Inr (scenario_gateway [], True, 2)
   \<and> check_duty_cycle scenario_params (scenario_gateway []) 12 7 8683 100
     = Inr (scenario_gateway [], False, 2)"
  using check_duty_cycle_admissible [of "scenario_gateway []" 8681 0 scenario_params 12 7 0 1]
    check_duty_cycle_admissible [of "scenario_gateway []" 8683 5 scenario_params 12 7 1000 1]
    check_duty_cycle_admissible [of "scenario_gateway []" 8683 5 scenario_params 12 7 100 1]
  by (simp add: scenario_gateway_def scenario_params_def)

subsection \<open>Receiving a packet\<close>

lemma packet_received_weak_eq:
  assumes "SENSITIVITY (sf (packet_lora_param pkt)) = Some threshold"
    and "rss_of P g n pkt < threshold"
  shows "packet_received P g n pkt now
           = Inr ((with_history g (node_id n))
                    \<lparr>uplink_packet_weak := uplink_packet_weak g @ [pkt]\<rparr>,
                  empty_message\<lparr>weak_packet := Some True\<rparr>)"
  using assms
  by (auto simp: packet_received_def rss_of_def with_history_def history_of_def Let_def
           fun_upd_idem domIff split: option.splits)

lemma check_duty_cycle_same:
  assumes "check_duty_cycle P g payload_size s f now = Inr (g', ok, t)"
  shows "g' = g \<and> t = time_on_air P payload_size f s"
  using assms by (auto simp: check_duty_cycle_def Let_def split: option.splits if_splits)

lemma adr_same:
  assumes "adr P g n pkt = Inr (g', r)"
  shows "g' = g"
  using assms by (auto simp: adr_def Let_def split: option.splits if_splits sum.splits)

lemma log_same:
  assumes "gateway_log g t = Inr (g', ls)"
  shows "g' = g"
  using assms by (auto simp: gateway_log_def Let_def split: sum.splits)

lemma check_duty_cycle_ledger:
  assumes "channel_time_used g1 = channel_time_used g2"
    and "check_duty_cycle P g1 payload_size s f now = Inr (g1, ok, t)"
  shows "check_duty_cycle P g2 payload_size s f now = Inr (g2, ok, t)"
  using assms by (auto simp: check_duty_cycle_def Let_def split: option.splits if_splits)

lemma downlink_Inr:
  assumes "downlink P g pkt now settings = Inr (g', m)"
  defines "lp \<equiv> packet_lora_param pkt"
  defines "t1 \<equiv> time_on_air P 12 (freq lp) (sf lp)"
  defines "t2 \<equiv> time_on_air P 12 (RX_2_DEFAULT_FREQ P) (RX_2_DEFAULT_SF P)"
  shows "\<exists>a1 a2.
           check_duty_cycle P g 12 (sf lp) (freq lp) now = Inr (g, a1, t1)
         \<and> check_duty_cycle P g 12 (RX_2_DEFAULT_SF P) (RX_2_DEFAULT_FREQ P) now = Inr (g, a2, t2)
         \<and> tx_on_rx1 m = Some (fst (choose_window (dr lp) a1 a2))
         \<and> lost m = Some (snd (choose_window (dr lp) a1 a2))
         \<and> weak_packet m = None
         \<and> msg_dr m = map_option fst settings \<and> msg_tp m = map_option snd settings
         \<and> (if snd (choose_window (dr lp) a1 a2)
              then g' = g\<lparr>downlink_packets_lost := downlink_packets_lost g @ [pkt]\<rparr>
              else if fst (choose_window (dr lp) a1 a2)
              then add_time_used g (freq lp) t1 = Inr g'
              else add_time_used g (RX_2_DEFAULT_FREQ P) t2 = Inr g')"
proof -
  obtain g1 a1 t1' where c1: "check_duty_cycle P g 12 (sf lp) (freq lp) now = Inr (g1, a1, t1')"
    using assms(1) unfolding downlink_def Let_def lp_def
    by (auto split: sum.splits)
  from check_duty_cycle_same [OF c1] have e1: "g1 = g" "t1' = t1"
    by (simp_all add: t1_def)
  obtain g2 a2 t2' where
    c2: "check_duty_cycle P g 12 (RX_2_DEFAULT_SF P) (RX_2_DEFAULT_FREQ P) now = Inr (g2, a2, t2')"
    using assms(1) c1 e1 unfolding downlink_def Let_def lp_def
    by (auto split: sum.splits)
  from check_duty_cycle_same [OF c2] have e2: "g2 = g" "t2' = t2"
    by (simp_all add: t2_def)
  obtain w l where cw: "choose_window (dr lp) a1 a2 = (w, l)"
    by (cases "choose_window (dr lp) a1 a2")
  have "tx_on_rx1 m = Some w \<and> lost m = Some l \<and> weak_packet m = None
        \<and> msg_dr m = map_option fst settings \<and> msg_tp m = map_option snd settings
        \<and> (if l then g' = g\<lparr>downlink_packets_lost := downlink_packets_lost g @ [pkt]\<rparr>
            else if w then add_time_used g (freq lp) t1 = Inr g'
            else add_time_used g (RX_2_DEFAULT_FREQ P) t2 = Inr g')"
    using assms(1) c1 c2 e1 e2 cw unfolding downlink_def Let_def lp_def [symmetric]
    by (cases settings) (auto simp: empty_message_def split: sum.splits if_splits)
  with c1 c2 e1 e2 cw show ?thesis by auto
qed

lemma packet_received_unfold:
  "packet_received P g n pkt now =
     (case SENSITIVITY (sf (packet_lora_param pkt)) of
        None \<Rightarrow> Inl KeyError
      | Some threshold \<Rightarrow>
          if rss_of P g n pkt < threshold then
            Inr ((with_history g (node_id n))\<lparr>uplink_packet_weak := uplink_packet_weak g @ [pkt]\<rparr>,
                 empty_message\<lparr>weak_packet := Some True\<rparr>)
          else
            (case adr P (accept_state P g n pkt) n pkt of
               Inl e \<Rightarrow> Inl e
             | Inr (g4, settings) \<Rightarrow> downlink P g4 pkt now settings))"
proof (cases "packet_history g (node_id n)")
  case None
  then show ?thesis
    by (simp add: packet_received_def rss_of_def history_of_def accept_state_def with_history_def
          Let_def domIff split: option.splits)
next
  case (Some h)
  then show ?thesis
    by (simp add: packet_received_def rss_of_def history_of_def accept_state_def with_history_def
          Let_def domIff fun_upd_idem split: option.splits)
qed

lemma packet_received_cases:
  assumes "packet_received P g n pkt now = Inr (g', m)"
  shows "(too_weak P g n pkt
            \<and> g' = (with_history g (node_id n))\<lparr>uplink_packet_weak := uplink_packet_weak g @ [pkt]\<rparr>
            \<and> m = empty_message\<lparr>weak_packet := Some True\<rparr>)
       \<or> (\<not> too_weak P g n pkt
            \<and> (\<exists>settings.
                  adr P (accept_state P g n pkt) n pkt = Inr (accept_state P g n pkt, settings)
                \<and> downlink P (accept_state P g n pkt) pkt now settings = Inr (g', m)))"
proof -
  obtain threshold where th: "SENSITIVITY (sf (packet_lora_param pkt)) = Some threshold"
    using assms by (auto simp: packet_received_unfold split: option.splits)
  show ?thesis
  proof (cases "rss_of P g n pkt < threshold")
    case True
    with th assms show ?thesis
      by (simp add: too_weak_def packet_received_unfold)
  next
    case False
    with assms th obtain g4 settings
      where a: "adr P (accept_state P g n pkt) n pkt = Inr (g4, settings)"
        and d: "downlink P g4 pkt now settings = Inr (g', m)"
      by (auto simp: packet_received_unfold split: sum.splits)
    from adr_same [OF a] a d th False show ?thesis
      by (auto simp: too_weak_def)
  qed
qed

lemma history_of_with_history: "history_of (with_history g k) j = history_of g j"
  by (simp add: history_of_def with_history_def)

text \<open>
  C2. When the received signal strength is below the threshold of the packet's spreading
  factor, \<open>packet_received\<close> returns the message that holds \<open>weak_packet = True\<close>
  and nothing else, and a gateway that differs from the one before in two places only:
  the packet is appended to \<open>uplink_packet_weak\<close>, and a transmitter seen for the
  first time has an empty deque. No sample is added to any history, the counter of
  received packets and the ledger are as before. The result mentions neither \<open>adr\<close>
  nor \<open>check_duty_cycle\<close>: it is returned for every time \<open>now\<close> and all parameters,
  also where those two would raise.
\<close>

theorem packet_received_weak:
  assumes "SENSITIVITY (sf (packet_lora_param pkt)) = Some threshold"
    and "rss_of P g n pkt < threshold"
  shows "\<exists>g'. packet_received P g n pkt now = Inr (g', empty_message\<lparr>weak_packet := Some True\<rparr>)
            \<and> g' = (with_history g (node_id n))\<lparr>uplink_packet_weak := uplink_packet_weak g @ [pkt]\<rparr>
            \<and> uplink_packet_weak g' = uplink_packet_weak g @ [pkt]
            \<and> (\<forall>k. history_of g' k = history_of g k)
            \<and> num_of_packet_received g' = num_of_packet_received g
            \<and> channel_time_used g' = channel_time_used g
            \<and> downlink_packets_lost g' = downlink_packets_lost g"
  using packet_received_weak_eq [OF assms, of now]
  by (simp add: history_of_def with_history_def)

theorem packet_received_weak_witness:
  "packet_received scenario_params (scenario_gateway scenario_history) (scenario_node 6)
      \<lparr>packet_lora_param = \<lparr>freq = 9999, sf = 10, dr = 2, tp = - 70\<rparr>\<rparr> 0
     = Inr ((scenario_gateway scenario_history)
              \<lparr>uplink_packet_weak := [\<lparr>packet_lora_param = \<lparr>freq = 9999, sf = 10, dr = 2, tp = - 70\<rparr>\<rparr>]\<rparr>,
            empty_message\<lparr>weak_packet := Some True\<rparr>)"
  using packet_received_weak [of "\<lparr>packet_lora_param = \<lparr>freq = 9999, sf = 10, dr = 2, tp = - 70\<rparr>\<rparr>"
      "- 133" scenario_params "scenario_gateway scenario_history" "scenario_node 6" 0]
  by (simp add: SENSITIVITY_def rss_of_def scenario_params_def scenario_gateway_def
        scenario_node_def with_history_def history_of_def)

lemma accept_state_ledger [simp]:
  "channel_time_used (accept_state P g n pkt) = channel_time_used g"
  "downlink_packets_lost (accept_state P g n pkt) = downlink_packets_lost g"
  by (simp_all add: accept_state_def)

lemma add_time_used_Inr:
  assumes "add_time_used g f t = Inr g'"
  shows "\<exists>u. map_of (channel_time_used g) f = Some u
           \<and> g' = g\<lparr>channel_time_used := AList.update f (u + t) (channel_time_used g)\<rparr>"
  using assms by (auto simp: add_time_used_def split: option.splits)

lemmas scenario_defs =
  scenario_params_def scenario_gateway_def scenario_node_def scenario_packet_def
  busy_gateway_def fast_packet_def

lemmas receive_defs =
  packet_received_def adr_def downlink_def check_duty_cycle_def choose_window_def
  add_time_used_def deque_append_def empty_message_def SENSITIVITY_def Let_def

lemma run_slow:
  "packet_received scenario_params (scenario_gateway []) (scenario_node 7) (scenario_packet 7) 1000
     = Inr ((scenario_gateway [64])
              \<lparr>channel_time_used := [(8681, 0), (8683, 5), (8685, 0), (8695, 2)],
               num_of_packet_received := 21\<rparr>,
            empty_message\<lparr>tx_on_rx1 := Some False, lost := Some False\<rparr>)"
  by (simp add: scenario_defs receive_defs)

lemma run_fast:
  "packet_received scenario_params (scenario_gateway []) (scenario_node 7) fast_packet 1000
     = Inr ((scenario_gateway [64])
              \<lparr>channel_time_used := [(8681, 0), (8683, 7), (8685, 0), (8695, 0)],
               num_of_packet_received := 21\<rparr>,
            empty_message\<lparr>tx_on_rx1 := Some True, lost := Some False\<rparr>)"
  by (simp add: scenario_defs receive_defs)

lemma run_lost:
  "packet_received scenario_params busy_gateway (scenario_node 7) fast_packet 1000
     = Inr (busy_gateway
              \<lparr>packet_history := [1 \<mapsto> [64]], downlink_packets_lost := [fast_packet],
               num_of_packet_received := 21\<rparr>,
            empty_message\<lparr>tx_on_rx1 := Some False, lost := Some True\<rparr>)"
  by (simp add: scenario_defs receive_defs)

lemma not_weak: "\<not> too_weak scenario_params (scenario_gateway []) (scenario_node 7) (scenario_packet 7)"
  "\<not> too_weak scenario_params (scenario_gateway []) (scenario_node 7) fast_packet"
  "\<not> too_weak scenario_params busy_gateway (scenario_node 7) fast_packet"
  by (simp_all add: too_weak_def rss_of_def scenario_defs SENSITIVITY_def)

text \<open>
  C8. For a packet that passed the filter and a call that returned, let \<open>possible_rx1\<close>
  and \<open>possible_rx2\<close> be the answers of \<open>check_duty_cycle\<close> for the packet's own channel
  and spreading factor and for the RX2 defaults, on the ledger as it was before the call.
  With a data-rate index above 3 the message names RX1 when RX1 is admissible and RX2
  when only RX2 is; with a data-rate index of 3 or below it names RX2 when RX2 is
  admissible and RX1 when only RX1 is. When neither is admissible the message has
  \<open>lost = True\<close> and the packet is appended to \<open>downlink_packets_lost\<close>; otherwise that
  list is as before.
\<close>

theorem window_precedence:
  assumes "packet_received P g n pkt now = Inr (g', m)" and "\<not> too_weak P g n pkt"
  shows "\<exists>possible_rx1 possible_rx2 t1 t2.
           check_duty_cycle P g 12 (sf (packet_lora_param pkt)) (freq (packet_lora_param pkt)) now
             = Inr (g, possible_rx1, t1)
         \<and> check_duty_cycle P g 12 (RX_2_DEFAULT_SF P) (RX_2_DEFAULT_FREQ P) now
             = Inr (g, possible_rx2, t2)
         \<and> (3 < dr (packet_lora_param pkt) \<and> possible_rx1
              \<longrightarrow> tx_on_rx1 m = Some True \<and> lost m = Some False)
         \<and> (3 < dr (packet_lora_param pkt) \<and> \<not> possible_rx1 \<and> possible_rx2
              \<longrightarrow> tx_on_rx1 m = Some False \<and> lost m = Some False)
         \<and> (dr (packet_lora_param pkt) \<le> 3 \<and> possible_rx2
              \<longrightarrow> tx_on_rx1 m = Some False \<and> lost m = Some False)
         \<and> (dr (packet_lora_param pkt) \<le> 3 \<and> \<not> possible_rx2 \<and> possible_rx1
              \<longrightarrow> tx_on_rx1 m = Some True \<and> lost m = Some False)
         \<and> (\<not> possible_rx1 \<and> \<not> possible_rx2
              \<longrightarrow> lost m = Some True
                \<and> downlink_packets_lost g' = downlink_packets_lost g @ [pkt])
         \<and> (possible_rx1 \<or> possible_rx2
              \<longrightarrow> downlink_packets_lost g' = downlink_packets_lost g)"
proof -
  define g3 where "g3 = accept_state P g n pkt"
  from packet_received_cases [OF assms(1)] assms(2) obtain settings
    where d: "downlink P g3 pkt now settings = Inr (g', m)"
    by (auto simp: g3_def)
  define lp where "lp = packet_lora_param pkt"
  define t1 where "t1 = time_on_air P 12 (freq lp) (sf lp)"
  define t2 where "t2 = time_on_air P 12 (RX_2_DEFAULT_FREQ P) (RX_2_DEFAULT_SF P)"
  from downlink_Inr [OF d] obtain a1 a2 where
    c1: "check_duty_cycle P g3 12 (sf lp) (freq lp) now = Inr (g3, a1, t1)" and
    c2: "check_duty_cycle P g3 12 (RX_2_DEFAULT_SF P) (RX_2_DEFAULT_FREQ P) now = Inr (g3, a2, t2)" and
    w: "tx_on_rx1 m = Some (fst (choose_window (dr lp) a1 a2))" and
    l: "lost m = Some (snd (choose_window (dr lp) a1 a2))" and
    g': "if snd (choose_window (dr lp) a1 a2)
         then g' = g3\<lparr>downlink_packets_lost := downlink_packets_lost g3 @ [pkt]\<rparr>
         else if fst (choose_window (dr lp) a1 a2)
         then add_time_used g3 (freq lp) t1 = Inr g'
         else add_time_used g3 (RX_2_DEFAULT_FREQ P) t2 = Inr g'"
    unfolding lp_def t1_def t2_def by blast
  have led: "channel_time_used g3 = channel_time_used g"
    by (simp add: g3_def)
  note k1 = check_duty_cycle_ledger [OF led c1] and k2 = check_duty_cycle_ledger [OF led c2]
  have lostl: "downlink_packets_lost g' =
      (if snd (choose_window (dr lp) a1 a2) then downlink_packets_lost g @ [pkt]
       else downlink_packets_lost g)"
    using g' by (auto simp: g3_def dest!: add_time_used_Inr split: if_splits)
  show ?thesis
    using k1 k2 w l lostl unfolding lp_def [symmetric]
    by (intro exI [of _ a1] exI [of _ a2] exI [of _ t1] exI [of _ t2])
       (auto simp: choose_window_def)
qed

theorem window_precedence_witness:
  "(\<exists>g' m. packet_received scenario_params (scenario_gateway []) (scenario_node 7) fast_packet 1000
              = Inr (g', m)
          \<and> tx_on_rx1 m = Some True \<and> lost m = Some False \<and> downlink_packets_lost g' = [])
   \<and> (\<exists>g' m. packet_received scenario_params (scenario_gateway []) (scenario_node 7)
                (scenario_packet 7) 1000 = Inr (g', m)
          \<and> tx_on_rx1 m = Some False \<and> lost m = Some False \<and> downlink_packets_lost g' = [])
   \<and> (\<exists>g' m. packet_received scenario_params busy_gateway (scenario_node 7) fast_packet 1000
              = Inr (g', m)
          \<and> lost m = Some True \<and> downlink_packets_lost g' = [fast_packet])"
proof (intro conjI)
  show "\<exists>g' m. packet_received scenario_params (scenario_gateway []) (scenario_node 7) fast_packet
                   1000 = Inr (g', m)
          \<and> tx_on_rx1 m = Some True \<and> lost m = Some False \<and> downlink_packets_lost g' = []"
    by (insert window_precedence [OF run_fast not_weak(2)],
        intro exI conjI, rule run_fast) (simp_all add: empty_message_def scenario_gateway_def)
  show "\<exists>g' m. packet_received scenario_params (scenario_gateway []) (scenario_node 7)
                (scenario_packet 7) 1000 = Inr (g', m)
          \<and> tx_on_rx1 m = Some False \<and> lost m = Some False \<and> downlink_packets_lost g' = []"
    by (insert window_precedence [OF run_slow not_weak(1)],
        intro exI conjI, rule run_slow) (simp_all add: empty_message_def scenario_gateway_def)
  show "\<exists>g' m. packet_received scenario_params busy_gateway (scenario_node 7) fast_packet 1000
              = Inr (g', m)
          \<and> lost m = Some True \<and> downlink_packets_lost g' = [fast_packet]"
    by (insert window_precedence [OF run_lost not_weak(3)],
        intro exI conjI, rule run_lost) (simp_all add: empty_message_def)
qed

text \<open>
  C7. \<open>check_duty_cycle\<close> returns the gateway it was given, and so do \<open>adr\<close> and
  \<open>log\<close>. After \<open>packet_received\<close>, when the message has \<open>lost = False\<close>, the ledger
  is the one before with the entry of the chosen window's channel (the packet's
  frequency for RX1, the RX2 default frequency otherwise) increased by that window's
  time on air, every other entry being as before; in every other case (a lost downlink,
  a weak packet) the ledger is as before.
\<close>

theorem ledger_frame:
  "(\<forall>g1 ok t. check_duty_cycle P g payload_size s f now = Inr (g1, ok, t) \<longrightarrow> g1 = g)
   \<and> (\<forall>g1 r. adr P g n pkt = Inr (g1, r) \<longrightarrow> g1 = g)
   \<and> (\<forall>g1 ls. gateway_log g now = Inr (g1, ls) \<longrightarrow> g1 = g)
   \<and> (\<forall>g' m. packet_received P g n pkt now = Inr (g', m) \<longrightarrow>
         (if lost m = Some False then
            (let wf = (if tx_on_rx1 m = Some True then freq (packet_lora_param pkt)
                       else RX_2_DEFAULT_FREQ P);
                 ws = (if tx_on_rx1 m = Some True then sf (packet_lora_param pkt)
                       else RX_2_DEFAULT_SF P)
             in \<exists>u. map_of (channel_time_used g) wf = Some u
                  \<and> channel_time_used g'
                      = AList.update wf (u + time_on_air P 12 wf ws) (channel_time_used g)
                  \<and> map_of (channel_time_used g') wf = Some (u + time_on_air P 12 wf ws)
                  \<and> (\<forall>c. c \<noteq> wf \<longrightarrow>
                        map_of (channel_time_used g') c = map_of (channel_time_used g) c))
          else channel_time_used g' = channel_time_used g))"
proof -
  have "(if lost m = Some False then
            (let wf = (if tx_on_rx1 m = Some True then freq (packet_lora_param pkt)
                       else RX_2_DEFAULT_FREQ P);
                 ws = (if tx_on_rx1 m = Some True then sf (packet_lora_param pkt)
                       else RX_2_DEFAULT_SF P)
             in \<exists>u. map_of (channel_time_used g) wf = Some u
                  \<and> channel_time_used g'
                      = AList.update wf (u + time_on_air P 12 wf ws) (channel_time_used g)
                  \<and> map_of (channel_time_used g') wf = Some (u + time_on_air P 12 wf ws)
                  \<and> (\<forall>c. c \<noteq> wf \<longrightarrow>
                        map_of (channel_time_used g') c = map_of (channel_time_used g) c))
          else channel_time_used g' = channel_time_used g)"
    if r: "packet_received P g n pkt now = Inr (g', m)" for g' m
  proof (cases "too_weak P g n pkt")
    case True
    with packet_received_cases [OF r] show ?thesis
      by (auto simp: with_history_def empty_message_def)
  next
    case False
    define g3 where "g3 = accept_state P g n pkt"
    from packet_received_cases [OF r] False obtain settings
      where d: "downlink P g3 pkt now settings = Inr (g', m)"
      by (auto simp: g3_def)
    define lp where "lp = packet_lora_param pkt"
    from downlink_Inr [OF d] obtain w l where
      w: "tx_on_rx1 m = Some w" and l: "lost m = Some l" and
      g': "if l then g' = g3\<lparr>downlink_packets_lost := downlink_packets_lost g3 @ [pkt]\<rparr>
           else if w then add_time_used g3 (freq lp) (time_on_air P 12 (freq lp) (sf lp)) = Inr g'
           else add_time_used g3 (RX_2_DEFAULT_FREQ P)
                  (time_on_air P 12 (RX_2_DEFAULT_FREQ P) (RX_2_DEFAULT_SF P)) = Inr g'"
      unfolding lp_def by blast
    show ?thesis
    proof (cases l)
      case True
      with l g' show ?thesis by (simp add: g3_def)
    next
      case nl: False
      show ?thesis
      proof (cases w)
        case True
        with nl g' have "add_time_used g3 (freq lp) (time_on_air P 12 (freq lp) (sf lp)) = Inr g'"
          by simp
        from add_time_used_Inr [OF this] True nl w l show ?thesis
          by (auto simp: g3_def lp_def Let_def update_conv')
      next
        case False
        with nl g' have "add_time_used g3 (RX_2_DEFAULT_FREQ P)
                  (time_on_air P 12 (RX_2_DEFAULT_FREQ P) (RX_2_DEFAULT_SF P)) = Inr g'"
          by simp
        from add_time_used_Inr [OF this] False nl w l show ?thesis
          by (auto simp: g3_def lp_def Let_def update_conv')
      qed
    qed
  qed
  then have d: "\<forall>g' m. packet_received P g n pkt now = Inr (g', m) \<longrightarrow>
         (if lost m = Some False then
            (let wf = (if tx_on_rx1 m = Some True then freq (packet_lora_param pkt)
                       else RX_2_DEFAULT_FREQ P);
                 ws = (if tx_on_rx1 m = Some True then sf (packet_lora_param pkt)
                       else RX_2_DEFAULT_SF P)
             in \<exists>u. map_of (channel_time_used g) wf = Some u
                  \<and> channel_time_used g'
                      = AList.update wf (u + time_on_air P 12 wf ws) (channel_time_used g)
                  \<and> map_of (channel_time_used g') wf = Some (u + time_on_air P 12 wf ws)
                  \<and> (\<forall>c. c \<noteq> wf \<longrightarrow>
                        map_of (channel_time_used g') c = map_of (channel_time_used g) c))
          else channel_time_used g' = channel_time_used g)"
    by (intro allI impI)
  have a: "\<forall>g1 ok t. check_duty_cycle P g payload_size s f now = Inr (g1, ok, t) \<longrightarrow> g1 = g"
    using check_duty_cycle_same by blast
  have b: "\<forall>g1 r. adr P g n pkt = Inr (g1, r) \<longrightarrow> g1 = g"
    using adr_same by blast
  have c: "\<forall>g1 ls. gateway_log g now = Inr (g1, ls) \<longrightarrow> g1 = g"
    using log_same by blast
  show ?thesis
    by (rule conjI [OF a conjI [OF b conjI [OF c d]]])
qed

theorem ledger_frame_witness:
  "(\<exists>g' m. packet_received scenario_params (scenario_gateway []) (scenario_node 7) fast_packet 1000
              = Inr (g', m)
          \<and> lost m = Some False \<and> tx_on_rx1 m = Some True
          \<and> channel_time_used g' = [(8681, 0), (8683, 5 + 2), (8685, 0), (8695, 0)])
   \<and> (\<exists>g' m. packet_received scenario_params busy_gateway (scenario_node 7) fast_packet 1000
              = Inr (g', m)
          \<and> lost m = Some True \<and> channel_time_used g' = channel_time_used busy_gateway)"
proof (intro conjI)
  show "\<exists>g' m. packet_received scenario_params (scenario_gateway []) (scenario_node 7) fast_packet
                   1000 = Inr (g', m)
          \<and> lost m = Some False \<and> tx_on_rx1 m = Some True
          \<and> channel_time_used g' = [(8681, 0), (8683, 5 + 2), (8685, 0), (8695, 0)]"
    by (insert ledger_frame [of scenario_params "scenario_gateway []" 12 7 8683 1000
          "scenario_node 7" fast_packet, THEN conjunct2, THEN conjunct2, THEN conjunct2,
          rule_format, OF run_fast],
        intro exI conjI, rule run_fast) (simp_all add: empty_message_def)
  show "\<exists>g' m. packet_received scenario_params busy_gateway (scenario_node 7) fast_packet 1000
              = Inr (g', m)
          \<and> lost m = Some True \<and> channel_time_used g' = channel_time_used busy_gateway"
    by (insert ledger_frame [of scenario_params busy_gateway 12 7 8683 1000 "scenario_node 7"
          fast_packet, THEN conjunct2, THEN conjunct2, THEN conjunct2, rule_format, OF run_lost],
        intro exI conjI, rule run_lost) (simp_all add: empty_message_def)
qed

subsection \<open>The SNR history\<close>

lemma deque_append_keep_last:
  assumes "length h \<le> 20"
  shows "deque_append h x = keep_last (h @ [x])"
proof (cases "length h = 20")
  case True
  then have "h \<noteq> []" by auto
  with True show ?thesis
    by (cases h) (simp_all add: deque_append_def keep_last_def)
next
  case False
  with assms show ?thesis
    by (simp add: deque_append_def keep_last_def)
qed

lemma length_keep_last: "length (keep_last xs) \<le> 20"
  by (simp add: keep_last_def)

lemma keep_last_append: "keep_last (keep_last xs @ ys) = keep_last (xs @ ys)"
proof (cases "length xs \<le> 20")
  case True
  then show ?thesis by (simp add: keep_last_def)
next
  case False
  then have "length xs - (length xs - 20) = 20"
    and "length xs + length ys - 20 = (length xs - 20) + length ys" by simp_all
  then show ?thesis by (simp add: keep_last_def add.commute)
qed

lemma keep_last_short: "length xs \<le> 20 \<Longrightarrow> keep_last xs = xs"
  by (simp add: keep_last_def)

lemma downlink_history:
  assumes "downlink P g pkt now settings = Inr (g', m)"
  shows "packet_history g' = packet_history g \<and> same_radio g g'"
proof -
  from downlink_Inr [OF assms] obtain w l where
    "if l then g' = g\<lparr>downlink_packets_lost := downlink_packets_lost g @ [pkt]\<rparr>
     else if w then add_time_used g (freq (packet_lora_param pkt))
                      (time_on_air P 12 (freq (packet_lora_param pkt)) (sf (packet_lora_param pkt)))
                    = Inr g'
     else add_time_used g (RX_2_DEFAULT_FREQ P)
            (time_on_air P 12 (RX_2_DEFAULT_FREQ P) (RX_2_DEFAULT_SF P)) = Inr g'"
    by blast
  then show ?thesis
    by (auto simp: same_radio_def dest!: add_time_used_Inr split: if_splits)
qed

lemma packet_received_history:
  assumes "packet_received P g n pkt now = Inr (g', m)"
  shows "same_radio g g'
       \<and> (\<forall>k. history_of g' k =
               (if k = node_id n \<and> \<not> too_weak P g n pkt
                then deque_append (history_of g k) (snr_model g (rss_of P g n pkt))
                else history_of g k))"
proof (cases "too_weak P g n pkt")
  case True
  with packet_received_cases [OF assms] show ?thesis
    by (auto simp: same_radio_def with_history_def history_of_def)
next
  case False
  with packet_received_cases [OF assms] obtain settings where
    "downlink P (accept_state P g n pkt) pkt now settings = Inr (g', m)"
    by auto
  from downlink_history [OF this] False show ?thesis
    by (auto simp: same_radio_def accept_state_def history_of_def)
qed

lemma same_radio_snrs:
  assumes "same_radio g g'"
  shows "accepted_snrs P g' k evs = accepted_snrs P g k evs"
proof -
  have r: "rss_of P g' n pkt = rss_of P g n pkt" for n pkt
    using assms by (simp add: same_radio_def rss_of_def)
  then have "too_weak P g' n pkt = too_weak P g n pkt" for n pkt
    by (simp add: too_weak_def split: option.splits)
  with r assms show ?thesis
    by (simp add: accepted_snrs_def same_radio_def)
qed

lemma receive_all_history:
  assumes "receive_all P g evs = Inr g'" and "\<forall>k. length (history_of g k) \<le> 20"
  shows "history_of g' k = keep_last (history_of g k @ accepted_snrs P g k evs)"
  using assms
proof (induction evs arbitrary: g)
  case Nil
  then show ?case
    by (simp add: accepted_snrs_def keep_last_short)
next
  case (Cons ev evs)
  obtain n pkt now where ev: "ev = (n, pkt, now)"
    by (cases ev)
  from Cons.prems(1) ev obtain g1 m where
    r: "packet_received P g n pkt now = Inr (g1, m)" and rest: "receive_all P g1 evs = Inr g'"
    by (auto split: sum.splits)
  note h = packet_received_history [OF r]
  from h have sr: "same_radio g g1" by simp
  from h have h1: "history_of g1 j =
      (if j = node_id n \<and> \<not> too_weak P g n pkt
       then keep_last (history_of g j @ [snr_model g (rss_of P g n pkt)])
       else history_of g j)" for j
    using Cons.prems(2) by (simp add: deque_append_keep_last)
  have inv: "\<forall>j. length (history_of g1 j) \<le> 20"
    using Cons.prems(2) by (simp add: h1 length_keep_last)
  have "history_of g' k = keep_last (history_of g1 k @ accepted_snrs P g1 k evs)"
    by (rule Cons.IH [OF rest inv])
  also have "\<dots> = keep_last (history_of g k @ accepted_snrs P g k (ev # evs))"
    by (simp add: h1 same_radio_snrs [OF sr] keep_last_append)
       (simp add: accepted_snrs_def ev)
  finally show ?case .
qed

lemma fresh_gateway_eq:
  "fresh_gateway =
     \<lparr>location = (0, 0), packet_history = Map.empty,
      channel_time_used = [(8681, 0), (8683, 0), (8685, 0), (8695, 0)],
      downlink_packets_lost = [], uplink_packet_weak = [],
      snr_model = (\<lambda>rss. rss + 120), prop_model = (\<lambda>t d. t - d),
      num_of_packet_received = 0\<rparr>"
  by (simp add: fresh_gateway_def init_def scenario_params_def)

lemma scenario_run:
  "\<exists>g'. receive_all scenario_params fresh_gateway scenario_events = Inr g'"
  by (simp add: fresh_gateway_eq scenario_events_def scenario_params_def scenario_node_def
        receive_defs adr_required_snr_def np_round_def adr_settings_def)

lemma scenario_snrs:
  "accepted_snrs scenario_params fresh_gateway 1 scenario_events =
     [53, 51, 54, 65, 59, 52, 56, 55, 85, 58, 147, 143, 73, 134, 112, 114, 83, 133, 77, 145, 60]"
  by (simp add: accepted_snrs_def too_weak_def rss_of_def SENSITIVITY_def fresh_gateway_eq
        scenario_events_def scenario_params_def scenario_node_def)

text \<open>
  C5. Take a run of arrivals that returns, from a gateway whose histories hold at most
  20 samples each (as every gateway does that \<open>__init__\<close> built). Afterwards every
  history holds at most 20 samples, and the history of a transmitter is the last 20 of
  what it held before followed by the samples of its accepted packets, in order of
  arrival. So after 21 accepted packets of a transmitter that had no sample, the
  history is the samples 2 to 21 in order of arrival, the first one gone.
\<close>

theorem history_fifo:
  assumes "receive_all P g evs = Inr g'" and "\<forall>k. length (history_of g k) \<le> 20"
  shows "(\<forall>k. length (history_of g' k) \<le> 20)
       \<and> (\<forall>k. history_of g' k = keep_last (history_of g k @ accepted_snrs P g k evs))
       \<and> (\<forall>k. history_of g k = [] \<and> length (accepted_snrs P g k evs) = 21
                \<longrightarrow> history_of g' k = tl (accepted_snrs P g k evs))"
proof -
  have h: "history_of g' k = keep_last (history_of g k @ accepted_snrs P g k evs)" for k
    by (rule receive_all_history [OF assms])
  then have "length (history_of g' k) \<le> 20" for k
    by (simp add: length_keep_last)
  moreover have "history_of g' k = tl (accepted_snrs P g k evs)"
    if "history_of g k = []" and "length (accepted_snrs P g k evs) = 21" for k
    using that h [of k] by (simp add: keep_last_def drop_Suc)
  ultimately show ?thesis
    using h by blast
qed

theorem history_fifo_witness:
  "\<exists>g'. receive_all scenario_params fresh_gateway scenario_events = Inr g'
        \<and> history_of g' 1 =
            [51, 54, 65, 59, 52, 56, 55, 85, 58, 147, 143, 73, 134, 112, 114, 83, 133, 77, 145, 60]"
proof -
  from scenario_run obtain g' where
    r: "receive_all scenario_params fresh_gateway scenario_events = Inr g'" ..
  have i: "\<forall>k. length (history_of fresh_gateway k) \<le> 20"
    by (simp add: history_of_def fresh_gateway_eq)
  have e: "history_of fresh_gateway 1 = []"
    by (simp add: history_of_def fresh_gateway_eq)
  have n: "length (accepted_snrs scenario_params fresh_gateway 1 scenario_events) = 21"
    by (simp only: scenario_snrs) simp
  from history_fifo [OF r i] e n have "history_of g' 1 =
      tl (accepted_snrs scenario_params fresh_gateway 1 scenario_events)"
    by blast
  then have "history_of g' 1 =
      [51, 54, 65, 59, 52, 56, 55, 85, 58, 147, 143, 73, 134, 112, 114, 83, 133, 77, 145, 60]"
    by (simp only: scenario_snrs list.sel)
  with r show ?thesis
    by blast
qed

subsection \<open>Reporting\<close>

text \<open>
  C9. \<open>log\<close> divides the used time of each channel by \<open>self.env.now\<close> with no test
  of the divisor, unlike the two other ratios of the same method, which are computed
  only when their divisor is not zero. On a gateway as \<open>__init__\<close> leaves it, at
  simulated time 0, the call raises ZeroDivisionError.
\<close>

theorem log_raises_at_time_zero:
  "gateway_log fresh_gateway 0 = Inl ZeroDivisionError"
  by (simp add: gateway_log_def fresh_gateway_eq)

end
